theory Spec2Isabelle
  imports Complex_Main
begin

section \<open>JavaScript values used by script.js\<close>

text \<open>
  The script computes with JavaScript numbers and strings. A number is \<open>NaN\<close>, one of
  the two infinities, or a finite double, held as the rational it stands for. Every
  number the script reads and every sum, difference, product and quotient it forms is
  rounded to the nearest double, ties to the even mantissa, and overflows to an infinity
  (\<open>toDouble\<close>); the grid of the united export is the one exception, explained where
  it is defined. The two zeros of IEEE arithmetic are one value. Strings are lists of
  characters with code units below 256.
\<close>

datatype jsnum = NaN | Fin rat | PInf | NInf

subsection \<open>Rounding to a double\<close>

definition pow2 :: "int \<Rightarrow> rat" where
  "pow2 e = (if 0 \<le> e then 2 ^ nat e else 1 / 2 ^ nat (- e))"

definition pow10 :: "int \<Rightarrow> rat" where
  "pow10 e = (if 0 \<le> e then 10 ^ nat e else 1 / 10 ^ nat (- e))"

text \<open>For \<open>x \<ge> 1\<close>, the greatest \<open>k\<close> with \<open>b ^ k \<le> x\<close>.\<close>

function logFloor :: "rat \<Rightarrow> rat \<Rightarrow> nat" where
  "logFloor b x = (if b < 2 \<or> x < b then 0 else Suc (logFloor b (x / b)))"
  by pat_completeness auto
termination
proof (relation "measure (\<lambda>(b, x). nat \<lfloor>x\<rfloor>)")
  show "wf (measure (\<lambda>(b, x). nat \<lfloor>x\<rfloor>))"
    by simp
next
  fix b x :: rat
  assume "\<not> (b < 2 \<or> x < b)"
  then have a: "b \<le> x" "2 \<le> b"
    by simp_all
  have "x * 2 \<le> x * b"
    using a by (intro mult_left_mono) simp_all
  then have "x / b \<le> x / 2"
    using a by (simp add: field_simps)
  also have "\<dots> \<le> x - 1"
    using a by simp
  finally have "\<lfloor>x / b\<rfloor> \<le> \<lfloor>x - 1\<rfloor>"
    by (rule floor_mono)
  then have "\<lfloor>x / b\<rfloor> < \<lfloor>x\<rfloor>"
    by simp
  moreover have "0 < \<lfloor>x\<rfloor>"
    using a by simp
  ultimately show "((b, x / b), (b, x)) \<in> measure (\<lambda>(b, x). nat \<lfloor>x\<rfloor>)"
    by simp
qed

declare logFloor.simps [simp del]

text \<open>For \<open>0 < x < 1\<close>, the least \<open>k\<close> with \<open>1 \<le> x * b ^ k\<close>.\<close>

function logLift :: "rat \<Rightarrow> rat \<Rightarrow> nat" where
  "logLift b x = (if b < 2 \<or> x \<le> 0 \<or> 1 \<le> x then 0 else Suc (logLift b (x * b)))"
  by pat_completeness auto
termination
proof (relation "measure (\<lambda>(b, x). nat \<lceil>1 / x\<rceil>)")
  show "wf (measure (\<lambda>(b, x). nat \<lceil>1 / x\<rceil>))"
    by simp
next
  fix b x :: rat
  assume "\<not> (b < 2 \<or> x \<le> 0 \<or> 1 \<le> x)"
  then have a: "0 < x" "x < 1" "2 \<le> b"
    by simp_all
  have "1 < 1 / x"
    using a by simp
  then have c: "2 \<le> \<lceil>1 / x\<rceil>"
    by linarith
  have "x * 2 \<le> x * b"
    using a by (intro mult_left_mono) simp_all
  then have "1 / (x * b) \<le> (1 / x) / 2"
    using a by (simp add: field_simps)
  also have "\<dots> \<le> of_int \<lceil>1 / x\<rceil> / 2"
    by (simp add: divide_right_mono)
  also have "\<dots> \<le> of_int (\<lceil>1 / x\<rceil> - 1)"
    using c by simp
  finally have "\<lceil>1 / (x * b)\<rceil> \<le> \<lceil>1 / x\<rceil> - 1"
    by (rule ceiling_le)
  then have "nat \<lceil>1 / (x * b)\<rceil> < nat \<lceil>1 / x\<rceil>"
    using c by linarith
  then show "((b, x * b), (b, x)) \<in> measure (\<lambda>(b, x). nat \<lceil>1 / x\<rceil>)"
    by simp
qed

declare logLift.simps [simp del]

text \<open>For \<open>a > 0\<close>, the exponent \<open>e\<close> with \<open>b ^ e \<le> a < b ^ (e + 1)\<close>.\<close>

definition exponentOf :: "rat \<Rightarrow> rat \<Rightarrow> int" where
  "exponentOf b a = (if 1 \<le> a then int (logFloor b a) else - int (logLift b a))"

definition roundHalfEven :: "rat \<Rightarrow> int" where
  "roundHalfEven x =
     (let f = \<lfloor>x\<rfloor>; d = x - of_int f
      in if d < 1 / 2 then f else if 1 / 2 < d then f + 1 else if even f then f else f + 1)"

text \<open>
  The double nearest to a rational: a mantissa \<open>m\<close> of at most 53 bits times
  \<open>2 ^ (e - 52)\<close>, where \<open>e\<close> is the binary exponent of the value and at least -1022.
  A value that rounds to \<open>2 ^ 1024\<close> or more is an infinity.
\<close>

definition toDouble :: "rat \<Rightarrow> jsnum" where
  "toDouble x =
     (if x = 0 then Fin 0
      else
        let a = \<bar>x\<bar>;
            e = max (exponentOf 2 a) (- 1022);
            q = pow2 (e - 52);
            m = roundHalfEven (a / q);
            r = of_int m * q
        in if 1023 < e \<or> (e = 1023 \<and> 2 ^ 53 \<le> m) then (if x < 0 then NInf else PInf)
           else Fin (if x < 0 then - r else r))"


subsection \<open>Arithmetic and comparison\<close>

definition isNaN :: "jsnum \<Rightarrow> bool" where
  "isNaN x = (x = NaN)"

fun js_neg :: "jsnum \<Rightarrow> jsnum" where
  "js_neg NaN = NaN"
| "js_neg (Fin a) = Fin (- a)"
| "js_neg PInf = NInf"
| "js_neg NInf = PInf"

fun js_add :: "jsnum \<Rightarrow> jsnum \<Rightarrow> jsnum" where
  "js_add NaN _ = NaN"
| "js_add _ NaN = NaN"
| "js_add (Fin a) (Fin b) = toDouble (a + b)"
| "js_add PInf NInf = NaN"
| "js_add NInf PInf = NaN"
| "js_add PInf _ = PInf"
| "js_add NInf _ = NInf"
| "js_add (Fin a) PInf = PInf"
| "js_add (Fin a) NInf = NInf"

definition js_sub :: "jsnum \<Rightarrow> jsnum \<Rightarrow> jsnum" where
  "js_sub x y = js_add x (js_neg y)"

fun js_sgn :: "jsnum \<Rightarrow> int" where
  "js_sgn NaN = 0"
| "js_sgn (Fin a) = (if a < 0 then - 1 else if a = 0 then 0 else 1)"
| "js_sgn PInf = 1"
| "js_sgn NInf = - 1"

fun js_mul :: "jsnum \<Rightarrow> jsnum \<Rightarrow> jsnum" where
  "js_mul NaN _ = NaN"
| "js_mul _ NaN = NaN"
| "js_mul (Fin a) (Fin b) = toDouble (a * b)"
| "js_mul x y =
     (let s = js_sgn x * js_sgn y
      in if s = 0 then NaN else if s < 0 then NInf else PInf)"

text \<open>Division as the script uses it: the divisor is a non-zero finite constant.\<close>

fun js_div :: "jsnum \<Rightarrow> rat \<Rightarrow> jsnum" where
  "js_div NaN d = NaN"
| "js_div (Fin a) d = toDouble (a / d)"
| "js_div PInf d = (if d < 0 then NInf else PInf)"
| "js_div NInf d = (if d < 0 then PInf else NInf)"

text \<open>The relational operators: every comparison with \<open>NaN\<close> is false.\<close>

fun js_le :: "jsnum \<Rightarrow> jsnum \<Rightarrow> bool" where
  "js_le NaN _ = False"
| "js_le _ NaN = False"
| "js_le (Fin a) (Fin b) = (a \<le> b)"
| "js_le NInf _ = True"
| "js_le _ PInf = True"
| "js_le PInf _ = False"
| "js_le _ NInf = False"

fun js_lt :: "jsnum \<Rightarrow> jsnum \<Rightarrow> bool" where
  "js_lt NaN _ = False"
| "js_lt _ NaN = False"
| "js_lt (Fin a) (Fin b) = (a < b)"
| "js_lt PInf _ = False"
| "js_lt _ NInf = False"
| "js_lt NInf _ = True"
| "js_lt _ PInf = True"

definition js_gt :: "jsnum \<Rightarrow> jsnum \<Rightarrow> bool" where
  "js_gt x y = js_lt y x"

text \<open>\<open>x || d\<close> on numbers: \<open>NaN\<close> and zero are falsy.\<close>

definition js_or :: "jsnum \<Rightarrow> jsnum \<Rightarrow> jsnum" where
  "js_or x d = (if x = NaN \<or> x = Fin 0 then d else x)"

subsection \<open>Strings\<close>

definition newline :: char where
  "newline = CHR 0x0A"

text \<open>White space and line terminators among the code units below 256.\<close>

definition isWhiteSpace :: "char \<Rightarrow> bool" where
  "isWhiteSpace c = (c \<in> set [CHR 0x09, CHR 0x0A, CHR 0x0B, CHR 0x0C, CHR 0x0D, CHR 0x20, CHR 0xA0])"

definition trimStart :: "string \<Rightarrow> string" where
  "trimStart s = dropWhile isWhiteSpace s"

definition trim :: "string \<Rightarrow> string" where
  "trim s = rev (dropWhile isWhiteSpace (rev (dropWhile isWhiteSpace s)))"

text \<open>\<open>s.split(c)\<close> for a one-character separator: always at least one piece.\<close>

fun split :: "char \<Rightarrow> string \<Rightarrow> string list" where
  "split c [] = [[]]"
| "split c (x # xs) =
     (if x = c then [] # split c xs
      else (case split c xs of p # ps \<Rightarrow> (x # p) # ps | [] \<Rightarrow> [[x]]))"

fun join :: "string \<Rightarrow> string list \<Rightarrow> string" where
  "join sep [] = []"
| "join sep [p] = p"
| "join sep (p # q # ps) = p @ sep @ join sep (q # ps)"

definition isUpper :: "char \<Rightarrow> bool" where
  "isUpper c = (let n = (of_char c :: nat) in (65 \<le> n \<and> n \<le> 90) \<or> (192 \<le> n \<and> n \<le> 222 \<and> n \<noteq> 215))"

definition toLowerCase :: "string \<Rightarrow> string" where
  "toLowerCase s = map (\<lambda>c. if isUpper c then char_of (of_char c + (32::nat)) else c) s"

definition padStart :: "string \<Rightarrow> nat \<Rightarrow> char \<Rightarrow> string" where
  "padStart s n c = replicate (n - length s) c @ s"

definition isDigit :: "char \<Rightarrow> bool" where
  "isDigit c = (c \<in> set ''0123456789'')"

definition digitVal :: "char \<Rightarrow> int" where
  "digitVal c = of_char c - 48"

text \<open>The value of a string of decimal digits, most significant digit first.\<close>

definition digitsVal :: "string \<Rightarrow> int" where
  "digitsVal ds = foldl (\<lambda>acc c. 10 * acc + digitVal c) 0 ds"

subsection \<open>Reading numbers from strings\<close>

text \<open>
  \<open>parseInt(s, 10)\<close>: leading white space is skipped, an optional sign is read, then the
  longest run of decimal digits; no digit gives \<open>NaN\<close>, and whatever follows the digits
  is ignored. The integer read is rounded to a double.
\<close>

definition parseInt :: "string \<Rightarrow> jsnum" where
  "parseInt s =
     (let t = trimStart s;
          neg = (case t of c # _ \<Rightarrow> c = CHR ''-'' | [] \<Rightarrow> False);
          u = (case t of c # r \<Rightarrow> if c = CHR ''+'' \<or> c = CHR ''-'' then r else t | [] \<Rightarrow> t);
          z = takeWhile isDigit u
      in if z = [] then NaN
         else toDouble (of_int ((if neg then - 1 else 1) * digitsVal z)))"

text \<open>An optional exponent part \<open>e\<plusminus>digits\<close>; nothing is consumed when it is incomplete.\<close>

definition scanExponent :: "string \<Rightarrow> int \<times> string" where
  "scanExponent s =
     (case s of
        [] \<Rightarrow> (0, s)
      | c # r \<Rightarrow>
          if c = CHR ''e'' \<or> c = CHR ''E'' then
            (let sg = (case r of d # _ \<Rightarrow> if d = CHR ''-'' then - 1 else 1 | [] \<Rightarrow> (1::int));
                 r' = (case r of d # r'' \<Rightarrow> if d = CHR ''+'' \<or> d = CHR ''-'' then r'' else r | [] \<Rightarrow> r);
                 ds = takeWhile isDigit r'
             in if ds = [] then (0, s) else (sg * digitsVal ds, dropWhile isDigit r'))
          else (0, s))"

text \<open>
  The longest prefix that is an unsigned decimal literal (\<open>Infinity\<close>, \<open>12\<close>, \<open>12.\<close>,
  \<open>12.5\<close>, \<open>.5\<close>, each but the first with an optional exponent), with its value
  rounded to a double and the rest of the string.
\<close>

definition scanUnsigned :: "string \<Rightarrow> (jsnum \<times> string) option" where
  "scanUnsigned s =
     (if take 8 s = ''Infinity'' then Some (PInf, drop 8 s)
      else
        let ip = takeWhile isDigit s;
            r1 = dropWhile isDigit s;
            dot = (case r1 of c # _ \<Rightarrow> c = CHR ''.'' | [] \<Rightarrow> False);
            fp = (if dot then takeWhile isDigit (tl r1) else []);
            r2 = (if dot then dropWhile isDigit (tl r1) else r1)
        in if ip = [] \<and> fp = [] then None
           else (case scanExponent r2 of
                   (e, r3) \<Rightarrow>
                     Some (toDouble (of_int (digitsVal (ip @ fp)) * pow10 (e - int (length fp))),
                           r3)))"

definition scanDecimal :: "string \<Rightarrow> (jsnum \<times> string) option" where
  "scanDecimal s =
     (case s of
        [] \<Rightarrow> None
      | c # r \<Rightarrow>
          if c = CHR ''+'' then scanUnsigned r
          else if c = CHR ''-'' then map_option (\<lambda>(v, r'). (js_neg v, r')) (scanUnsigned r)
          else scanUnsigned s)"

text \<open>\<open>parseFloat(s)\<close>: the longest decimal literal after leading white space.\<close>

definition parseFloat :: "string \<Rightarrow> jsnum" where
  "parseFloat s = (case scanDecimal (trimStart s) of None \<Rightarrow> NaN | Some (v, _) \<Rightarrow> v)"

definition radixDigit :: "int \<Rightarrow> char \<Rightarrow> int option" where
  "radixDigit b c =
     (let n = (of_char c :: int);
          v = (if 48 \<le> n \<and> n \<le> 57 then Some (n - 48)
               else if 97 \<le> n \<and> n \<le> 102 then Some (n - 87)
               else if 65 \<le> n \<and> n \<le> 70 then Some (n - 55)
               else None)
      in case v of None \<Rightarrow> None | Some d \<Rightarrow> if d < b then Some d else None)"

definition radixVal :: "int \<Rightarrow> string \<Rightarrow> jsnum" where
  "radixVal b ds =
     (if ds = [] \<or> (\<exists>c \<in> set ds. radixDigit b c = None) then NaN
      else toDouble (of_int (foldl (\<lambda>acc c. b * acc + the (radixDigit b c)) 0 ds)))"

text \<open>
  \<open>Number(s)\<close>: white space is trimmed on both sides; the empty string is 0; a
  \<open>0x\<close>, \<open>0o\<close> or \<open>0b\<close> literal is read in its radix; anything else must be a decimal
  literal as a whole.
\<close>

definition Number :: "string \<Rightarrow> jsnum" where
  "Number s =
     (let t = trim s
      in if t = [] then Fin 0
         else if take 2 t \<in> set [''0x'', ''0X''] then radixVal 16 (drop 2 t)
         else if take 2 t \<in> set [''0o'', ''0O''] then radixVal 8 (drop 2 t)
         else if take 2 t \<in> set [''0b'', ''0B''] then radixVal 2 (drop 2 t)
         else (case scanDecimal t of Some (v, []) \<Rightarrow> v | _ \<Rightarrow> NaN))"

subsection \<open>Writing numbers as strings\<close>

definition digitChar :: "int \<Rightarrow> char" where
  "digitChar d = ''0123456789'' ! nat d"

text \<open>The decimal digits of a non-negative integer.\<close>

function intDigits :: "int \<Rightarrow> string" where
  "intDigits n = (if n < 10 then [digitChar n] else intDigits (n div 10) @ [digitChar (n mod 10)])"
  by pat_completeness auto
termination
  by (relation "measure nat") auto

declare intDigits.simps [simp del]

text \<open>How often \<open>d\<close> divides \<open>n\<close>.\<close>

function multiplicityOf :: "int \<Rightarrow> int \<Rightarrow> nat" where
  "multiplicityOf d n =
     (if d \<le> 1 \<or> n \<le> 0 \<or> n mod d \<noteq> 0 then 0 else Suc (multiplicityOf d (n div d)))"
  by pat_completeness auto
termination
  by (relation "measure (\<lambda>(d, n). nat n)") (auto intro: int_div_less_self)

declare multiplicityOf.simps [simp del]

text \<open>
  A positive value \<open>m \<times> 10\<^sup>e\<close> with \<open>m\<close> not a multiple of ten, written as
  \<open>Number::toString\<close> does: plain digits up to 21 integer digits, a leading
  \<open>0.\<close> down to \<open>10\<^sup>-\<^sup>6\<close>, exponent notation beyond.
\<close>

definition formatPositive :: "int \<Rightarrow> int \<Rightarrow> string" where
  "formatPositive m e =
     (let ds = intDigits m; k = int (length ds); n = k + e
      in if k \<le> n \<and> n \<le> 21 then ds @ replicate (nat (n - k)) (CHR ''0'')
         else if 0 < n \<and> n \<le> 21 then take (nat n) ds @ ''.'' @ drop (nat n) ds
         else if - 6 < n \<and> n \<le> 0 then ''0.'' @ replicate (nat (- n)) (CHR ''0'') @ ds
         else
           let ex = n - 1;
               sg = (if ex < 0 then ''-'' else ''+'');
               exs = intDigits \<bar>ex\<bar>
           in if k = 1 then ds @ ''e'' @ sg @ exs
              else take 1 ds @ ''.'' @ drop 1 ds @ ''e'' @ sg @ exs)"

text \<open>
  The digits of a positive double \<open>x\<close> with \<open>10 ^ (n - 1) \<le> x < 10 ^ n\<close>: the fewest
  digits \<open>k\<close> for which a decimal \<open>s * 10 ^ (n - k)\<close> of \<open>k\<close> digits reads back as
  \<open>x\<close>, tried from \<open>k\<close> upwards; of the decimals just below and just above \<open>x\<close> the
  closer one, and the even one when they are as close. Seventeen digits always suffice
  for a double; the first equation only makes the function total.
\<close>

fun shortestDigits :: "rat \<Rightarrow> int \<Rightarrow> nat \<Rightarrow> nat \<Rightarrow> int \<times> int" where
  "shortestDigits x n k 0 = (\<lfloor>x / pow10 (n - int k)\<rfloor>, n - int k)"
| "shortestDigits x n k (Suc more) =
     (let scale = pow10 (n - int k);
          lo = \<lfloor>x / scale\<rfloor>;
          hi = lo + 1;
          okLo = (toDouble (of_int lo * scale) = Fin x);
          okHi = (toDouble (of_int hi * scale) = Fin x);
          dLo = x - of_int lo * scale;
          dHi = of_int hi * scale - x
      in if okLo \<and> (\<not> okHi \<or> dLo < dHi \<or> (dLo = dHi \<and> even lo)) then (lo, n - int k)
         else if okHi then (hi, n - int k)
         else shortestDigits x n (Suc k) more)"

definition stringOfPositive :: "rat \<Rightarrow> string" where
  "stringOfPositive x =
     (case shortestDigits x (exponentOf 10 x + 1) 1 17 of
        (s, e) \<Rightarrow> let z = multiplicityOf 10 s in formatPositive (s div 10 ^ z) (e + int z))"

text \<open>\<open>String(x)\<close> and the conversion in a template literal.\<close>

fun String :: "jsnum \<Rightarrow> string" where
  "String NaN = ''NaN''"
| "String PInf = ''Infinity''"
| "String NInf = ''-Infinity''"
| "String (Fin x) =
     (if x = 0 then ''0''
      else if x < 0 then ''-'' @ stringOfPositive (- x)
      else stringOfPositive x)"

declare String.simps [simp del]

text \<open>
  \<open>ToLength\<close>, which \<open>padStart\<close> applies to its first argument. Strings have no
  length limit here: the bound \<open>2\<^sup>5\<^sup>3 - 1\<close> of \<open>ToLength\<close> (which an infinite padding
  would reach) and the smaller limits at which engines raise \<open>RangeError\<close> are left
  out.
\<close>

fun toLength :: "jsnum \<Rightarrow> nat" where
  "toLength (Fin x) = nat \<lfloor>x\<rfloor>"
| "toLength _ = 0"

section \<open>The form, and what the handlers do to their collaborators\<close>

text \<open>
  The fields of \<open>elements\<close> that the handlers read or write, each with the string it
  holds when a handler starts.
\<close>

record form =
  prefix :: string
  startVal :: string
  endVal :: string
  suffix :: string
  increment :: string
  pageWidth :: string
  pageHeight :: string
  barcodeWidth :: string
  barcodeHeight :: string
  moveX :: string
  moveY :: string
  gapHorizontal :: string
  gapVertical :: string
  manualData :: string
  processTextInput :: string

text \<open>
  The calls a handler makes on the browser, the preview canvas, the PDF document and the
  ZIP archive, in the order it makes them. Time stamps in file names are left out. The
  document and the canvas are taken to accept every call they get.
\<close>

datatype effect =
    Alert string
  | ConsoleError string
  | ConsoleWarn string
  | PreviewPlaceholder
  | PreviewBarcode string
  | PreviewInvalid string
  | NewDocument bool jsnum jsnum
  | AddPage
  | DocSvg string jsnum jsnum jsnum jsnum
  | DocText string jsnum jsnum
  | DocSave string
  | ZipFile string string
  | ZipDownload string

text \<open>
  A handler either runs to its end or is left by an exception nobody catches; \<open>JsBarcode\<close>
  throws on a code its symbology cannot encode, and the handlers take the renderer as the
  parameter \<open>renders\<close> (true where the call succeeds).
\<close>

datatype completion = Normal | Threw string

section \<open>The sequence generator driven by the form\<close>

text \<open>
  The \<open>for\<close> loop of \<open>generateBarcodeData\<close>. A loop that never leaves has no result
  (\<open>None\<close>).
\<close>

partial_function (option) generateBarcodeData_loop ::
  "string \<Rightarrow> string \<Rightarrow> jsnum \<Rightarrow> jsnum \<Rightarrow> jsnum \<Rightarrow> string list \<Rightarrow> string list option" where
  "generateBarcodeData_loop pre suf i endv inc codes =
     (if js_le i endv
      then generateBarcodeData_loop pre suf (js_add i inc) endv inc (codes @ [pre @ String i @ suf])
      else Some codes)"

declare generateBarcodeData_loop.simps [code]

definition generateBarcodeData :: "form \<Rightarrow> (effect list \<times> string list) option" where
  "generateBarcodeData st =
     (let start = parseInt (startVal st);
          endv = parseInt (endVal st);
          inc = js_or (parseInt (increment st)) (Fin 1)
      in if isNaN start \<or> isNaN endv \<or> isNaN inc
         then Some ([Alert ''Please ensure Start, End, and Increment are valid numbers.''], [])
         else map_option (Pair [])
                (generateBarcodeData_loop (prefix st) (suffix st) start endv inc []))"

definition getCodesFromManualEntry :: "form \<Rightarrow> string list" where
  "getCodesFromManualEntry st = filter (\<lambda>s. s \<noteq> []) (map trim (split newline (manualData st)))"

section \<open>Preview\<close>

fun preview_each :: "(string \<Rightarrow> bool) \<Rightarrow> string list \<Rightarrow> effect list" where
  "preview_each renders [] = []"
| "preview_each renders (code # rest) =
     (if renders code then [PreviewBarcode code]
      else [ConsoleError code, PreviewInvalid code]) @ preview_each renders rest"

definition handlePreview :: "(string \<Rightarrow> bool) \<Rightarrow> form \<Rightarrow> effect list option" where
  "handlePreview renders st =
     (case generateBarcodeData st of
        None \<Rightarrow> None
      | Some (alerts, codes) \<Rightarrow>
          Some (alerts @
            (if length codes = 0 then [PreviewPlaceholder]
             else preview_each renders (take 10 codes))))"

section \<open>The standard PDF export (duplicate pairs)\<close>

record layout =
  pW :: jsnum
  pH :: jsnum
  bW :: jsnum
  bH :: jsnum
  mX :: jsnum
  mY :: jsnum
  gH :: jsnum
  gV :: jsnum

text \<open>The inner loop over \<open>rowCodes\<close>, from index \<open>j\<close> on.\<close>

fun standard_row :: "(string \<Rightarrow> bool) \<Rightarrow> layout \<Rightarrow> string list \<Rightarrow> nat \<Rightarrow> effect list \<times> completion" where
  "standard_row renders L [] j = ([], Normal)"
| "standard_row renders L (code # rest) j =
     (if \<not> renders code then ([], Threw code)
      else
        let x = js_add (mX L) (js_mul (Fin (of_nat j)) (gH L));
            topY = js_sub (js_sub (js_sub (pH L) (mY L)) (bH L)) (Fin 15);
            bottomY = js_sub topY (gV L);
            textX = js_add x (js_div (bW L) 2);
            here = [DocSvg code x topY (bW L) (bH L),
                    DocSvg code x bottomY (bW L) (bH L),
                    DocText code textX (js_add (js_add topY (bH L)) (Fin 10)),
                    DocText code textX (js_add (js_add bottomY (bH L)) (Fin 10))]
        in case standard_row renders L rest (Suc j) of
             (tr, c) \<Rightarrow> (here @ tr, c))"

text \<open>The outer loop, \<open>i\<close> running over the codes in steps of three.\<close>

function standard_pages :: "(string \<Rightarrow> bool) \<Rightarrow> layout \<Rightarrow> string list \<Rightarrow> nat \<Rightarrow> effect list \<times> completion" where
  "standard_pages renders L codes i =
     (if i < length codes then
        let page = (if i > 0 then [AddPage] else []);
            rowCodes = take 3 (drop i codes)
        in case standard_row renders L rowCodes 0 of
             (tr, Threw e) \<Rightarrow> (page @ tr, Threw e)
           | (tr, Normal) \<Rightarrow>
               (case standard_pages renders L codes (i + 3) of
                  (tr', c) \<Rightarrow> (page @ tr @ tr', c))
      else ([], Normal))"
  by pat_completeness auto
termination
  by (relation "measure (\<lambda>(renders, L, codes, i). length codes - i)") auto

declare standard_pages.simps [simp del]

text \<open>The eight layout settings as the handler reads them from the form.\<close>

definition layoutOf :: "form \<Rightarrow> layout" where
  "layoutOf st =
     \<lparr> pW = js_mul (parseFloat (pageWidth st)) (Fin 72),
       pH = js_mul (parseFloat (pageHeight st)) (Fin 72),
       bW = parseFloat (barcodeWidth st),
       bH = parseFloat (barcodeHeight st),
       mX = js_mul (parseFloat (moveX st)) (Fin 72),
       mY = js_mul (parseFloat (moveY st)) (Fin 72),
       gH = parseFloat (gapHorizontal st),
       gV = parseFloat (gapVertical st) \<rparr>"

definition handleStandardPdfExport ::
  "(string \<Rightarrow> bool) \<Rightarrow> form \<Rightarrow> (effect list \<times> completion) option" where
  "handleStandardPdfExport renders st =
     (case generateBarcodeData st of
        None \<Rightarrow> None
      | Some (alerts, codes) \<Rightarrow>
          if length codes = 0 then Some (alerts @ [Alert ''No barcodes to export.''], Normal)
          else
            let L = layoutOf st
            in if \<exists>v \<in> set [pW L, pH L, bW L, bH L, mX L, mY L, gH L, gV L]. isNaN v
               then Some (alerts @ [Alert ''Please ensure all layout settings are valid numbers.''], Normal)
               else
                 (case standard_pages renders L codes 0 of
                    (tr, Threw e) \<Rightarrow>
                      Some (alerts @ [NewDocument (js_gt (pW L) (pH L)) (pW L) (pH L)] @ tr, Threw e)
                  | (tr, Normal) \<Rightarrow>
                      Some (alerts @ [NewDocument (js_gt (pW L) (pH L)) (pW L) (pH L)] @ tr
                              @ [DocSave ''barcodes-standard''], Normal)))"

section \<open>The united PDF export (dense grid)\<close>

text \<open>
  The page sizes the document reports and the arithmetic of the grid are rationals in
  this handler, with no rounding: its grid is laid out in proportions of the page, which
  are equalities on rationals, while the doubles of the script follow them up to the
  last bits of the mantissa.
\<close>

definition margin :: rat where
  "margin = 72"

definition barcodesPerPage :: nat where
  "barcodesPerPage = 20"

text \<open>The callback of \<open>pageCodes.forEach\<close>, from index \<open>i\<close> on.\<close>

fun united_each ::
  "(string \<Rightarrow> bool) \<Rightarrow> rat \<Rightarrow> rat \<Rightarrow> rat \<Rightarrow> rat \<Rightarrow> string list \<Rightarrow> nat \<Rightarrow> effect list \<times> completion" where
  "united_each renders colWidth rowHeight barcodeW barcodeH [] i = ([], Normal)"
| "united_each renders colWidth rowHeight barcodeW barcodeH (code # rest) i =
     (let row = i div 4;
          col = i mod 4;
          x = margin + of_nat col * colWidth + (colWidth - barcodeW) / 2;
          y = margin + of_nat row * rowHeight + (rowHeight - barcodeH) / 2
      in if \<not> renders code then ([], Threw code)
         else case united_each renders colWidth rowHeight barcodeW barcodeH rest (Suc i) of
                (tr, c) \<Rightarrow> (DocSvg code (Fin x) (Fin y) (Fin barcodeW) (Fin barcodeH) # tr, c))"

text \<open>
  The loop over the pages. \<open>docW\<close> and \<open>docH\<close> are what the document reports as the
  width and height of its A4 page.
\<close>

function united_pages ::
  "(string \<Rightarrow> bool) \<Rightarrow> rat \<Rightarrow> rat \<Rightarrow> string list \<Rightarrow> nat \<Rightarrow> nat \<Rightarrow> effect list \<times> completion" where
  "united_pages renders docW docH codes numPages p =
     (if p < numPages then
        let page = (if p > 0 then [AddPage] else []);
            pageCodes = take ((p + 1) * barcodesPerPage - p * barcodesPerPage)
                          (drop (p * barcodesPerPage) codes);
            effectivePageWidth = docW - 2 * margin;
            effectivePageHeight = docH - 2 * margin;
            colWidth = effectivePageWidth / 4;
            rowHeight = effectivePageHeight / 5;
            barcodeW = colWidth * (8 / 10);
            barcodeH = rowHeight * (5 / 10)
        in case united_each renders colWidth rowHeight barcodeW barcodeH pageCodes 0 of
             (tr, Threw e) \<Rightarrow> (page @ tr, Threw e)
           | (tr, Normal) \<Rightarrow>
               (case united_pages renders docW docH codes numPages (p + 1) of
                  (tr', c) \<Rightarrow> (page @ tr @ tr', c))
      else ([], Normal))"
  by pat_completeness auto
termination
  by (relation "measure (\<lambda>(renders, docW, docH, codes, numPages, p). numPages - p)") auto

declare united_pages.simps [simp del]

definition handleUnitedPdfExport ::
  "(string \<Rightarrow> bool) \<Rightarrow> rat \<Rightarrow> rat \<Rightarrow> form \<Rightarrow> effect list \<times> completion" where
  "handleUnitedPdfExport renders docW docH st =
     (let codes = getCodesFromManualEntry st
      in if length codes = 0 then ([Alert ''Please enter barcode data for PDF export.''], Normal)
         else
           let numPages = (length codes + barcodesPerPage - 1) div barcodesPerPage
           in case united_pages renders docW docH codes numPages 0 of
                (tr, Threw e) \<Rightarrow> (NewDocument False (Fin docW) (Fin docH) # tr, Threw e)
              | (tr, Normal) \<Rightarrow>
                  (NewDocument False (Fin docW) (Fin docH) # tr @ [DocSave ''barcodes-manual''], Normal))"

section \<open>The SVG archive export\<close>

definition isAlnum :: "char \<Rightarrow> bool" where
  "isAlnum c =
     (let n = (of_char c :: nat)
      in (48 \<le> n \<and> n \<le> 57) \<or> (65 \<le> n \<and> n \<le> 90) \<or> (97 \<le> n \<and> n \<le> 122))"

definition safeFilename :: "string \<Rightarrow> string" where
  "safeFilename code = toLowerCase (map (\<lambda>c. if isAlnum c then c else CHR ''_'') code)"

fun zip_each :: "(string \<Rightarrow> bool) \<Rightarrow> string list \<Rightarrow> effect list" where
  "zip_each renders [] = []"
| "zip_each renders (code # rest) =
     (if renders code then [ZipFile (safeFilename code @ ''.svg'') code]
      else [ConsoleWarn code]) @ zip_each renders rest"

text \<open>\<open>zipOk\<close> tells whether the archive library succeeds in building the blob.\<close>

definition handleSvgZipExport :: "(string \<Rightarrow> bool) \<Rightarrow> bool \<Rightarrow> form \<Rightarrow> effect list" where
  "handleSvgZipExport renders zipOk st =
     (let codes = getCodesFromManualEntry st
      in if length codes = 0 then [Alert ''Please enter barcode data for SVG export.'']
         else zip_each renders codes @
              (if zipOk then [ZipDownload ''barcodes-svg'']
               else [ConsoleError ''Error creating ZIP file:'',
                     Alert ''Failed to create ZIP file. See console for details.'']))"

section \<open>The sequence generator driven by the parameter text\<close>

text \<open>The callback of \<open>reduce\<close>: one line of the text, added to the parameters read so far.\<close>

definition parseLine :: "(string \<rightharpoonup> string) \<Rightarrow> string \<Rightarrow> (string \<rightharpoonup> string)" where
  "parseLine acc line =
     (case split (CHR '':'') line of
        [] \<Rightarrow> acc
      | key # valueParts \<Rightarrow>
          if key \<noteq> [] \<and> length valueParts > 0
          then acc(toLowerCase (trim key) \<mapsto> trim (join '':'' valueParts))
          else acc)"

definition parseParams :: "string \<Rightarrow> (string \<rightharpoonup> string)" where
  "parseParams inputText = foldl parseLine Map.empty (split newline inputText)"

text \<open>A property of \<open>params\<close> is truthy when it is there and not the empty string.\<close>

definition truthy :: "string option \<Rightarrow> bool" where
  "truthy v = (case v of None \<Rightarrow> False | Some s \<Rightarrow> s \<noteq> [])"

definition orEmpty :: "string option \<Rightarrow> string" where
  "orEmpty v = (case v of None \<Rightarrow> [] | Some s \<Rightarrow> s)"

definition rangeOf :: "(string \<rightharpoonup> string) \<Rightarrow> jsnum list" where
  "rangeOf params =
     (if truthy (params ''range'') then map Number (split (CHR ''-'') (the (params ''range''))) else [])"

definition incrementOf :: "(string \<rightharpoonup> string) \<Rightarrow> jsnum" where
  "incrementOf params =
     (if truthy (params ''increment'') then parseInt (the (params ''increment'')) else Fin 1)"

definition paddingOf :: "(string \<rightharpoonup> string) \<Rightarrow> jsnum" where
  "paddingOf params =
     (if truthy (params ''padding'') then parseInt (the (params ''padding'')) else Fin 0)"

definition numberPart :: "jsnum \<Rightarrow> jsnum \<Rightarrow> string" where
  "numberPart padding i =
     (if js_gt padding (Fin 0) then padStart (String i) (toLength padding) (CHR ''0'')
      else String i)"

partial_function (option) handleProcessText_loop ::
  "string \<Rightarrow> string \<Rightarrow> jsnum \<Rightarrow> jsnum \<Rightarrow> jsnum \<Rightarrow> jsnum \<Rightarrow> string list \<Rightarrow> string list option" where
  "handleProcessText_loop pre suf padding i endv inc generatedCodes =
     (if js_le i endv
      then handleProcessText_loop pre suf padding (js_add i inc) endv inc
             (generatedCodes @ [pre @ numberPart padding i @ suf])
      else Some generatedCodes)"

declare handleProcessText_loop.simps [code]

text \<open>The last two statements of the handler: the codes join the manual entry.\<close>

definition appendToManualData :: "form \<Rightarrow> string list \<Rightarrow> form" where
  "appendToManualData st generatedCodes =
     (let existingData = trim (manualData st)
      in st\<lparr> manualData :=
                (if existingData \<noteq> [] then existingData @ [newline] else [])
                  @ join [newline] generatedCodes,
              processTextInput := [] \<rparr>)"

text \<open>
  The handler returns the form as it leaves it and the alerts it raised; \<open>None\<close> when
  its loop never ends.
\<close>

definition handleProcessText :: "form \<Rightarrow> (form \<times> effect list) option" where
  "handleProcessText st =
     (let inputText = trim (processTextInput st)
      in if inputText = [] then Some (st, [Alert ''Please enter processing parameters.''])
         else
           let params = parseParams inputText;
               pre = orEmpty (params ''prefix'');
               suf = orEmpty (params ''suffix'');
               range = rangeOf params;
               inc = incrementOf params;
               padding = paddingOf params
           in case range of
                [start, endv] \<Rightarrow>
                  if isNaN start \<or> isNaN endv
                  then Some (st, [Alert ''Invalid range. Please use the format: range: 1-100''])
                  else if js_gt start endv
                  then Some (st, [Alert ''Start of range cannot be greater than end.''])
                  else if isNaN inc \<or> js_lt inc (Fin 1)
                  then Some (st, [Alert ''Increment must be a positive number.''])
                  else if isNaN padding \<or> js_lt padding (Fin 0)
                  then Some (st, [Alert ''Padding must be a non-negative number.''])
                  else
                    (case handleProcessText_loop pre suf padding start endv inc [] of
                       None \<Rightarrow> None
                     | Some generatedCodes \<Rightarrow>
                         Some (appendToManualData st generatedCodes, []))
              | _ \<Rightarrow> Some (st, [Alert ''Invalid range. Please use the format: range: 1-100'']))"

text \<open>The trimmed parameter text of a form and the parameters read from it.\<close>

abbreviation inputTextOf :: "form \<Rightarrow> string" where
  "inputTextOf st \<equiv> trim (processTextInput st)"

abbreviation paramsOf :: "form \<Rightarrow> (string \<rightharpoonup> string)" where
  "paramsOf st \<equiv> parseParams (trim (processTextInput st))"

section \<open>The terms of the specification\<close>

subsection \<open>Sequences\<close>

text \<open>
  The number of codes the specification promises for integers \<open>start \<le> end\<close>,
  \<open>floor((end - start) / increment) + 1\<close>, the integers they stand for, and the padded
  numeric part \<open>pad(n, padding)\<close>.
\<close>

definition sequenceCount :: "int \<Rightarrow> int \<Rightarrow> int \<Rightarrow> nat" where
  "sequenceCount start endv inc = nat ((endv - start) div inc) + 1"

definition integerSequence :: "int \<Rightarrow> int \<Rightarrow> nat \<Rightarrow> int list" where
  "integerSequence start inc n = map (\<lambda>k. start + int k * inc) [0..<n]"


text \<open>The rounds a loop still makes from \<open>i\<close>: none once \<open>i\<close> is past the end.\<close>

definition roundsFrom :: "int \<Rightarrow> int \<Rightarrow> int \<Rightarrow> nat" where
  "roundsFrom i endv inc = (if i \<le> endv then sequenceCount i endv inc else 0)"

text \<open>The integers that doubles hold exactly and add exactly.\<close>

definition safeBound :: int where
  "safeBound = 2 ^ 53"

text \<open>
  A range text that is ``exactly two hyphen-separated integers'', read literally: two
  pieces, each a non-empty run of digits.
\<close>

definition isIntegerText :: "string \<Rightarrow> bool" where
  "isIntegerText s = (s \<noteq> [] \<and> list_all isDigit s)"

definition twoHyphenSeparatedIntegers :: "string \<Rightarrow> bool" where
  "twoHyphenSeparatedIntegers r =
     (case split (CHR ''-'') r of [a, b] \<Rightarrow> isIntegerText a \<and> isIntegerText b | _ \<Rightarrow> False)"

subsection \<open>Pages\<close>





subsection \<open>The duplicate-pair layout\<close>





subsection \<open>The dense grid\<close>










section \<open>Example inputs\<close>

definition exampleForm :: form where
  "exampleForm =
     \<lparr> prefix = [], startVal = ''1'', endVal = ''10'', suffix = [], increment = ''3'',
       pageWidth = ''8.5'', pageHeight = ''11'', barcodeWidth = ''100'', barcodeHeight = ''40'',
       moveX = ''1'', moveY = ''1'', gapHorizontal = ''150'', gapVertical = ''200'',
       manualData = [],
       processTextInput =
         ''range: 1-10'' @ [newline] @ ''increment: 3'' @ [newline] @ ''padding: 3'' \<rparr>"



text \<open>
  A renderer for the examples: CODE128 as the barcode library checks it, characters 0 to
  127 and the control codes 200 to 211, at least one character.
\<close>

definition code128 :: "string \<Rightarrow> bool" where
  "code128 code =
     (code \<noteq> [] \<and>
      list_all (\<lambda>c. (of_char c :: nat) \<le> 127 \<or>
                     (200 \<le> (of_char c :: nat) \<and> (of_char c :: nat) \<le> 211)) code)"

section \<open>Doubles\<close>

lemma logFloor_bounds:
  "2 \<le> b \<Longrightarrow> 1 \<le> x \<Longrightarrow> b ^ logFloor b x \<le> x \<and> x < b ^ Suc (logFloor b x)"
proof (induction b x rule: logFloor.induct)
  case (1 b x)
  show ?case
  proof (cases "x < b")
    case True
    then show ?thesis using 1(2,3) by (subst (1 2) logFloor.simps) simp
  next
    case False
    then have h: "1 \<le> x / b" using 1(2) by simp
    have ih: "b ^ logFloor b (x / b) \<le> x / b \<and> x / b < b ^ Suc (logFloor b (x / b))"
      using "1.IH" False 1(2) h by simp
    have l: "logFloor b x = Suc (logFloor b (x / b))"
      using False 1(2) by (subst logFloor.simps) simp
    have bp: "0 < b" using 1(2) by simp
    from ih bp show ?thesis unfolding l by (simp add: field_simps)
  qed
qed

lemma roundHalfEven_int: "roundHalfEven (of_int k) = k"
  by (simp add: roundHalfEven_def)

lemma roundHalfEven_nonneg: "0 \<le> x \<Longrightarrow> 0 \<le> roundHalfEven x"
  by (simp add: roundHalfEven_def Let_def)

lemma pow2_pos: "0 < pow2 e"
  by (simp add: pow2_def)

text \<open>Integers up to \<open>2 ^ 53\<close> in magnitude are doubles.\<close>

lemma toDouble_int:
  assumes "\<bar>n\<bar> \<le> 2 ^ 53"
  shows "toDouble (of_int n) = Fin (of_int n)"
proof (cases "n = 0")
  case True
  then show ?thesis by (simp add: toDouble_def)
next
  case False
  define a :: rat where "a = of_int \<bar>n\<bar>"
  define e where "e = logFloor 2 a"
  have a1: "1 \<le> a" using False by (simp add: a_def)
  have a53: "a \<le> 2 ^ 53" using assms unfolding a_def
    by (metis of_int_le_iff of_int_numeral of_int_power)
  have b: "2 ^ e \<le> a" "a < 2 ^ Suc e"
    using logFloor_bounds[of 2 a] a1 by (simp_all add: e_def)
  have "(2::rat) ^ e \<le> 2 ^ 53" using b(1) a53 by simp
  from power_le_imp_le_exp[OF _ this] have e53: "e \<le> 53" by simp
  have ex: "max (exponentOf 2 a) (- 1022) = int e"
    using a1 by (simp add: exponentOf_def e_def)
  have "\<exists>k. a / pow2 (int e - 52) = of_int k"
  proof (cases "e \<le> 52")
    case True
    then have "pow2 (int e - 52) = 1 / 2 ^ (52 - e)"
      by (auto simp: pow2_def nat_diff_distrib' intro: arg_cong[where f = "\<lambda>k. (2::rat) ^ k"])
    then have "a / pow2 (int e - 52) = of_int (\<bar>n\<bar> * 2 ^ (52 - e))"
      by (simp add: a_def)
    then show ?thesis by blast
  next
    case False
    then have e: "e = 53" using e53 by simp
    then have "a = 2 ^ 53" using b(1) a53 by simp
    then have "a / pow2 (int e - 52) = of_int (2 ^ 52)" by (simp add: e pow2_def)
    then show ?thesis by blast
  qed
  then obtain k where k: "a / pow2 (int e - 52) = of_int k" by blast
  have q: "pow2 (int e - 52) \<noteq> 0" by (simp add: pow2_def)
  have r: "of_int (roundHalfEven (a / pow2 (int e - 52))) * pow2 (int e - 52) = a"
    using k q by (simp add: roundHalfEven_int field_simps)
  have small: "\<not> (1023 < int e \<or> (int e = 1023 \<and> 2 ^ 53 \<le> roundHalfEven (a / pow2 (int e - 52))))"
    using e53 by simp
  have ab: "\<bar>rat_of_int n\<bar> = a" by (simp add: a_def)
  have n0: "rat_of_int n \<noteq> 0" using False by simp
  have "toDouble (of_int n) = Fin (if rat_of_int n < 0 then - a else a)"
    unfolding toDouble_def Let_def ab ex using n0 small by (simp add: r)
  then show ?thesis
    by (simp add: a_def)
qed

text \<open>Evaluation takes the short way on such integers.\<close>

lemma toDouble_code [code]:
  "toDouble x =
     (if of_int \<lfloor>x\<rfloor> = x \<and> \<bar>x\<bar> \<le> 9007199254740992 then Fin x
      else
        let a = \<bar>x\<bar>;
            e = max (exponentOf 2 a) (- 1022);
            q = pow2 (e - 52);
            m = roundHalfEven (a / q);
            r = of_int m * q
        in if 1023 < e \<or> (e = 1023 \<and> 2 ^ 53 \<le> m) then (if x < 0 then NInf else PInf)
           else Fin (if x < 0 then - r else r))"
proof (cases "of_int \<lfloor>x\<rfloor> = x \<and> \<bar>x\<bar> \<le> 9007199254740992")
  case True
  then have "of_int \<lfloor>x\<rfloor> = x" by (rule conjunct1)
  then have x: "x = of_int \<lfloor>x\<rfloor>" by (rule sym)
  have "\<bar>x\<bar> \<le> 2 ^ 53" using True by simp
  then have "\<bar>rat_of_int \<lfloor>x\<rfloor>\<bar> \<le> 2 ^ 53" using x by (simp only:)
  then have "\<bar>\<lfloor>x\<rfloor>\<bar> \<le> 2 ^ 53"
    by (metis of_int_abs of_int_le_iff of_int_numeral of_int_power)
  from toDouble_int[OF this] x True show ?thesis by simp
next
  case False
  then have "x \<noteq> 0" by auto
  with False show ?thesis unfolding toDouble_def by (simp only: if_False)
qed

lemma toDouble_not_NaN: "toDouble x \<noteq> NaN"
  by (simp add: toDouble_def Let_def)

lemma toDouble_nonpos:
  assumes "x \<le> 0"
  shows "(\<exists>y. toDouble x = Fin y \<and> y \<le> 0) \<or> toDouble x = NInf"
proof (cases "x = 0")
  case True
  then show ?thesis by (simp add: toDouble_def)
next
  case False
  then have neg: "x < 0" using assms by simp
  have "0 \<le> \<bar>x\<bar> / pow2 e" for e
    using pow2_pos[of e] by simp
  then have "0 \<le> rat_of_int (roundHalfEven (\<bar>x\<bar> / pow2 e)) * pow2 e" for e
    using roundHalfEven_nonneg pow2_pos[of e] by simp
  then show ?thesis
    using neg False by (simp add: toDouble_def Let_def)
qed

lemma js_add_int:
  "\<bar>a + b\<bar> \<le> 2 ^ 53 \<Longrightarrow> js_add (Fin (of_int a)) (Fin (of_int b)) = Fin (of_int (a + b))"
  using toDouble_int[of "a + b"] by simp

section \<open>The loops of the two generators\<close>

lemma integerSequence_Suc:
  "integerSequence start inc (Suc n) = start # integerSequence (start + inc) inc n"
  unfolding integerSequence_def
  by (simp add: upt_conv_Cons map_Suc_upt[symmetric] algebra_simps del: upt_Suc)

lemma roundsFrom_step:
  assumes "1 \<le> inc" "i \<le> endv"
  shows "roundsFrom i endv inc = Suc (roundsFrom (i + inc) endv inc)"
proof (cases "i + inc \<le> endv")
  case True
  have e: "endv - i = (endv - (i + inc)) + inc" by simp
  have "(endv - (i + inc) + inc) div inc = (endv - (i + inc)) div inc + 1"
    using assms(1) by (intro div_add_self2) simp
  then have "(endv - i) div inc = (endv - (i + inc)) div inc + 1"
    by (simp only: e[symmetric])
  moreover have "0 \<le> (endv - (i + inc)) div inc"
    using True assms(1) by (simp add: pos_imp_zdiv_nonneg_iff)
  ultimately show ?thesis
    using True assms by (simp add: roundsFrom_def sequenceCount_def nat_add_distrib)
next
  case False
  then have "(endv - i) div inc = 0"
    using assms by (intro div_pos_pos_trivial) simp_all
  then show ?thesis
    using False assms by (simp add: roundsFrom_def sequenceCount_def)
qed

lemma generate_loop_int:
  assumes "1 \<le> inc" and "- safeBound \<le> i" and "endv + inc \<le> safeBound"
  shows "generateBarcodeData_loop pre suf (Fin (of_int i)) (Fin (of_int endv)) (Fin (of_int inc)) codes =
           Some (codes @ map (\<lambda>n. pre @ String (Fin (of_int n)) @ suf)
                           (integerSequence i inc (roundsFrom i endv inc)))"
  using assms(2)
proof (induction "roundsFrom i endv inc" arbitrary: i codes)
  case 0
  then have "\<not> i \<le> endv"
    by (auto simp: roundsFrom_def sequenceCount_def split: if_splits)
  then show ?case using 0
    by (subst generateBarcodeData_loop.simps) (simp add: integerSequence_def)
next
  case (Suc n)
  then have le: "i \<le> endv"
    by (auto simp: roundsFrom_def split: if_splits)
  have st: "roundsFrom i endv inc = Suc (roundsFrom (i + inc) endv inc)"
    using roundsFrom_step[OF assms(1) le] .
  then have n: "n = roundsFrom (i + inc) endv inc"
    using Suc.hyps(2) by simp
  have lo: "- safeBound \<le> i + inc"
    using Suc.prems assms(1) by simp
  have "\<bar>i + inc\<bar> \<le> 2 ^ 53"
    using lo le assms(3) by (simp add: safeBound_def abs_le_iff)
  then have add: "js_add (Fin (of_int i)) (Fin (of_int inc)) = Fin (of_int (i + inc))"
    by (rule js_add_int)
  show ?case
    apply (subst generateBarcodeData_loop.simps)
    apply (simp only: add)
    using le Suc.hyps(1)[OF n lo] st by (simp add: integerSequence_Suc del: of_int_add)
qed

lemma process_loop_int:
  assumes "1 \<le> inc" and "- safeBound \<le> i" and "endv + inc \<le> safeBound"
  shows "handleProcessText_loop pre suf padding (Fin (of_int i)) (Fin (of_int endv))
           (Fin (of_int inc)) codes =
           Some (codes @ map (\<lambda>n. pre @ numberPart padding (Fin (of_int n)) @ suf)
                           (integerSequence i inc (roundsFrom i endv inc)))"
  using assms(2)
proof (induction "roundsFrom i endv inc" arbitrary: i codes)
  case 0
  then have "\<not> i \<le> endv"
    by (auto simp: roundsFrom_def sequenceCount_def split: if_splits)
  then show ?case using 0
    by (subst handleProcessText_loop.simps) (simp add: integerSequence_def)
next
  case (Suc n)
  then have le: "i \<le> endv"
    by (auto simp: roundsFrom_def split: if_splits)
  have st: "roundsFrom i endv inc = Suc (roundsFrom (i + inc) endv inc)"
    using roundsFrom_step[OF assms(1) le] .
  then have n: "n = roundsFrom (i + inc) endv inc"
    using Suc.hyps(2) by simp
  have lo: "- safeBound \<le> i + inc"
    using Suc.prems assms(1) by simp
  have "\<bar>i + inc\<bar> \<le> 2 ^ 53"
    using lo le assms(3) by (simp add: safeBound_def abs_le_iff)
  then have add: "js_add (Fin (of_int i)) (Fin (of_int inc)) = Fin (of_int (i + inc))"
    by (rule js_add_int)
  show ?case
    apply (subst handleProcessText_loop.simps)
    apply (simp only: add)
    using le Suc.hyps(1)[OF n lo] st by (simp add: integerSequence_Suc del: of_int_add)
qed




lemma generateBarcodeData_numbers:
  assumes "parseInt (startVal st) = Fin a" "parseInt (endVal st) = Fin b"
    "js_or (parseInt (increment st)) (Fin 1) = Fin c"
  shows "generateBarcodeData st =
           map_option (Pair []) (generateBarcodeData_loop (prefix st) (suffix st) (Fin a) (Fin b) (Fin c) [])"
  using assms by (simp add: generateBarcodeData_def isNaN_def)

lemma handleProcessText_accepted:
  assumes "trim (processTextInput st) \<noteq> []"
    and "rangeOf (parseParams (trim (processTextInput st))) = [start, endv]"
    and "\<not> isNaN start" "\<not> isNaN endv" "\<not> js_gt start endv"
    and "\<not> isNaN (incrementOf (parseParams (trim (processTextInput st))))"
    and "\<not> js_lt (incrementOf (parseParams (trim (processTextInput st)))) (Fin 1)"
    and "\<not> isNaN (paddingOf (parseParams (trim (processTextInput st))))"
    and "\<not> js_lt (paddingOf (parseParams (trim (processTextInput st)))) (Fin 0)"
  shows "handleProcessText st =
           map_option (\<lambda>generatedCodes. (appendToManualData st generatedCodes, []))
             (handleProcessText_loop
                (orEmpty (parseParams (trim (processTextInput st)) ''prefix''))
                (orEmpty (parseParams (trim (processTextInput st)) ''suffix''))
                (paddingOf (parseParams (trim (processTextInput st))))
                start endv
                (incrementOf (parseParams (trim (processTextInput st)))) [])"
  using assms by (simp add: handleProcessText_def Let_def split: option.splits)




subsection \<open>Loops that never end\<close>

text \<open>
  A loop of the form's generator whose counter is at or below zero, with an end at or
  above zero and an increment of zero or less, returns nothing, and so does a loop of the
  text's generator whose end is \<open>Infinity\<close>.
\<close>

lemma generate_loop_returns_only_outside:
  assumes "generateBarcodeData_loop pre suf i e inc codes = Some r"
  shows "\<not> (\<exists>b c. ((\<exists>a. i = Fin a \<and> a \<le> 0) \<or> i = NInf) \<and> e = Fin b \<and> 0 \<le> b \<and>
                 inc = Fin c \<and> c \<le> 0)"
proof (rule generateBarcodeData_loop.raw_induct[where
      P = "\<lambda>pre suf i e inc codes r.
             \<not> (\<exists>b c. ((\<exists>a. i = Fin a \<and> a \<le> 0) \<or> i = NInf) \<and> e = Fin b \<and> 0 \<le> b \<and>
                     inc = Fin c \<and> c \<le> 0)",
      OF _ assms])
  fix f pre suf i e inc codes r
  assume IH: "\<And>pre suf i e inc codes r. f pre suf i e inc codes = Some r \<Longrightarrow>
                \<not> (\<exists>b c. ((\<exists>a. i = Fin a \<and> a \<le> 0) \<or> i = NInf) \<and> e = Fin b \<and> 0 \<le> b \<and>
                        inc = Fin c \<and> c \<le> 0)"
    and body: "(if js_le i e then f pre suf (js_add i inc) e inc (codes @ [pre @ String i @ suf])
               else Some codes) = Some r"
  show "\<not> (\<exists>b c. ((\<exists>a. i = Fin a \<and> a \<le> 0) \<or> i = NInf) \<and> e = Fin b \<and> 0 \<le> b \<and>
                 inc = Fin c \<and> c \<le> 0)"
  proof
    assume "\<exists>b c. ((\<exists>a. i = Fin a \<and> a \<le> 0) \<or> i = NInf) \<and> e = Fin b \<and> 0 \<le> b \<and>
                  inc = Fin c \<and> c \<le> 0"
    then obtain b c where i: "(\<exists>a. i = Fin a \<and> a \<le> 0) \<or> i = NInf"
      and h: "e = Fin b" "0 \<le> b" "inc = Fin c" "c \<le> 0"
      by blast
    have le: "js_le i e"
      using i h by auto
    have next_i: "(\<exists>a. js_add i inc = Fin a \<and> a \<le> 0) \<or> js_add i inc = NInf"
    proof -
      { fix a assume a: "i = Fin a" "a \<le> 0"
        then have "a + c \<le> 0" using h(4) by simp
        from toDouble_nonpos[OF this] have ?thesis using a h(3) by simp }
      moreover
      { assume "i = NInf"
        then have ?thesis using h(3) by simp }
      ultimately show ?thesis using i by blast
    qed
    from body le have "f pre suf (js_add i inc) e inc (codes @ [pre @ String i @ suf]) = Some r"
      by simp
    from IH[OF this] next_i h show False by blast
  qed
qed

lemma generate_loop_diverges:
  assumes "a \<le> 0" "0 \<le> b" "c \<le> 0"
  shows "generateBarcodeData_loop pre suf (Fin a) (Fin b) (Fin c) codes = None"
proof (cases "generateBarcodeData_loop pre suf (Fin a) (Fin b) (Fin c) codes")
  case None
  then show ?thesis .
next
  case (Some r)
  from generate_loop_returns_only_outside[OF this] assms show ?thesis by blast
qed

lemma process_loop_returns_only_bounded:
  assumes "handleProcessText_loop pre suf padding i e inc codes = Some r"
  shows "\<not> (\<exists>c. i \<noteq> NaN \<and> e = PInf \<and> inc = Fin c)"
proof (rule handleProcessText_loop.raw_induct[where
      P = "\<lambda>pre suf padding i e inc codes r. \<not> (\<exists>c. i \<noteq> NaN \<and> e = PInf \<and> inc = Fin c)",
      OF _ assms])
  fix f pre suf padding i e inc codes r
  assume IH: "\<And>pre suf padding i e inc codes r. f pre suf padding i e inc codes = Some r \<Longrightarrow>
                \<not> (\<exists>c. i \<noteq> NaN \<and> e = PInf \<and> inc = Fin c)"
    and body: "(if js_le i e
                then f pre suf padding (js_add i inc) e inc (codes @ [pre @ numberPart padding i @ suf])
                else Some codes) = Some r"
  show "\<not> (\<exists>c. i \<noteq> NaN \<and> e = PInf \<and> inc = Fin c)"
  proof
    assume "\<exists>c. i \<noteq> NaN \<and> e = PInf \<and> inc = Fin c"
    then obtain c where h: "i \<noteq> NaN" "e = PInf" "inc = Fin c"
      by blast
    have le: "js_le i e"
      using h by (cases i) simp_all
    have nn: "js_add i inc \<noteq> NaN"
      using h by (cases i) (simp_all add: toDouble_not_NaN)
    from body le have "f pre suf padding (js_add i inc) e inc
                         (codes @ [pre @ numberPart padding i @ suf]) = Some r"
      by simp
    from IH[OF this] nn h show False by blast
  qed
qed

lemma process_loop_diverges:
  "handleProcessText_loop pre suf padding (Fin a) PInf (Fin c) codes = None"
proof (cases "handleProcessText_loop pre suf padding (Fin a) PInf (Fin c) codes")
  case None
  then show ?thesis .
next
  case (Some r)
  from process_loop_returns_only_bounded[OF this] show ?thesis by blast
qed



section \<open>Start after end\<close>



section \<open>Termination\<close>

text \<open>
  On a range of integers that doubles count exactly, with an increment of at least 1, both
  loops return.
\<close>

lemma loops_return_on_finite_ranges:
  assumes "1 \<le> inc" and "- safeBound \<le> i" and "e + inc \<le> safeBound"
  shows "\<exists>codes. generateBarcodeData_loop pre suf (Fin (of_int i)) (Fin (of_int e))
                   (Fin (of_int inc)) [] = Some codes"
    and "\<exists>codes. handleProcessText_loop pre suf padding (Fin (of_int i)) (Fin (of_int e))
                   (Fin (of_int inc)) [] = Some codes"
  by (simp_all add: generate_loop_int[OF assms] process_loop_int[OF assms])

text \<open>
  C10. The specification lets the handler of the parameter text always terminate. On the
  text \<open>range: 1-Infinity\<close> it does not: \<open>Number\<close> reads the end as \<open>Infinity\<close>, the
  check against \<open>NaN\<close> lets it pass, and the loop never leaves. The second half is the
  example of the claim itself: the form with the increment \<open>-2\<close> and the range 1 to 10.
\<close>

theorem loops_that_never_end:
  "handleProcessText (exampleForm\<lparr> processTextInput := ''range: 1-Infinity'' \<rparr>) = None
   \<and> generateBarcodeData (exampleForm\<lparr> increment := ''-2'' \<rparr>) = None"
proof -
  let ?t = "exampleForm\<lparr> processTextInput := ''range: 1-Infinity'' \<rparr>"
  let ?f = "exampleForm\<lparr> increment := ''-2'' \<rparr>"
  let ?p = "parseParams (trim ''range: 1-Infinity'')"
  have t: "trim ''range: 1-Infinity'' \<noteq> []"
    "rangeOf ?p = [Fin 1, PInf]" "incrementOf ?p = Fin 1" "paddingOf ?p = Fin 0"
    by code_simp+
  have "handleProcessText ?t =
           map_option (\<lambda>generatedCodes. (appendToManualData ?t generatedCodes, []))
             (handleProcessText_loop (orEmpty (?p ''prefix'')) (orEmpty (?p ''suffix''))
                (paddingOf ?p) (Fin 1) PInf (incrementOf ?p) [])"
    using handleProcessText_accepted[of ?t "Fin 1" PInf] t
    by (simp add: isNaN_def js_gt_def)
  then have 1: "handleProcessText ?t = None"
    by (simp add: t process_loop_diverges)
  have "startVal exampleForm = ''1''" "endVal exampleForm = ''10''"
    by (simp_all add: exampleForm_def)
  moreover have "parseInt ''1'' = Fin 1" "parseInt ''10'' = Fin 10"
    "js_or (parseInt ''-2'') (Fin 1) = Fin (- 2)"
    by code_simp+
  ultimately have f: "parseInt (startVal ?f) = Fin 1" "parseInt (endVal ?f) = Fin 10"
    "js_or (parseInt (increment ?f)) (Fin 1) = Fin (- 2)"
    by simp_all
  have s: "js_add (Fin 1) (Fin (- 2)) = Fin (- 1)"
    by code_simp
  have "generateBarcodeData_loop (prefix ?f) (suffix ?f) (Fin 1) (Fin 10) (Fin (- 2)) [] =
          generateBarcodeData_loop (prefix ?f) (suffix ?f) (Fin (- 1)) (Fin 10) (Fin (- 2))
            ([] @ [prefix ?f @ String (Fin 1) @ suffix ?f])"
    by (subst generateBarcodeData_loop.simps) (simp only: s js_le.simps, simp)
  then have 2: "generateBarcodeData ?f = None"
    by (simp add: generateBarcodeData_numbers[OF f] generate_loop_diverges)
  from 1 2 show ?thesis by blast
qed

section \<open>Padding\<close>




section \<open>The default increment\<close>

lemma parseInt_one: "parseInt ''1'' = Fin 1"
  by code_simp

text \<open>
  C6, as the code has it. The generator of the form uses the increment 1 when
  \<open>parseInt\<close> finds no number in the increment field (empty or no leading integer) or
  finds 0. The handler of the parameter text uses 1 when the increment is missing or
  empty; a value in which \<open>parseInt\<close> finds no number is rejected with an alert.
\<close>

theorem increment_default:
  "(parseInt (increment st) = NaN \<or> parseInt (increment st) = Fin 0
      \<longrightarrow> generateBarcodeData st = generateBarcodeData (st\<lparr> increment := ''1'' \<rparr>))
   \<and> (inputTextOf st \<noteq> [] \<and> rangeOf (paramsOf st) = [start, endv] \<and>
      \<not> isNaN start \<and> \<not> isNaN endv \<and> \<not> js_gt start endv \<and>
      \<not> isNaN (paddingOf (paramsOf st)) \<and> \<not> js_lt (paddingOf (paramsOf st)) (Fin 0) \<and>
      \<not> truthy (paramsOf st ''increment'')
      \<longrightarrow> handleProcessText st =
            map_option (\<lambda>generatedCodes. (appendToManualData st generatedCodes, []))
              (handleProcessText_loop (orEmpty (paramsOf st ''prefix''))
                 (orEmpty (paramsOf st ''suffix'')) (paddingOf (paramsOf st))
                 start endv (Fin 1) []))
   \<and> (inputTextOf st \<noteq> [] \<and> rangeOf (paramsOf st) = [start, endv] \<and>
      \<not> isNaN start \<and> \<not> isNaN endv \<and> \<not> js_gt start endv \<and>
      truthy (paramsOf st ''increment'') \<and> parseInt (the (paramsOf st ''increment'')) = NaN
      \<longrightarrow> handleProcessText st = Some (st, [Alert ''Increment must be a positive number.'']))"
proof -
  have formv: "generateBarcodeData st = generateBarcodeData (st\<lparr> increment := ''1'' \<rparr>)"
    if "parseInt (increment st) = NaN \<or> parseInt (increment st) = Fin 0"
    using that by (auto simp: generateBarcodeData_def js_or_def parseInt_one Let_def)
  have omitted: "handleProcessText st =
            map_option (\<lambda>generatedCodes. (appendToManualData st generatedCodes, []))
              (handleProcessText_loop (orEmpty (paramsOf st ''prefix''))
                 (orEmpty (paramsOf st ''suffix'')) (paddingOf (paramsOf st))
                 start endv (Fin 1) [])"
    if h: "inputTextOf st \<noteq> []" "rangeOf (paramsOf st) = [start, endv]"
      "\<not> isNaN start" "\<not> isNaN endv" "\<not> js_gt start endv"
      "\<not> isNaN (paddingOf (paramsOf st))" "\<not> js_lt (paddingOf (paramsOf st)) (Fin 0)"
      "\<not> truthy (paramsOf st ''increment'')"
  proof -
    have i: "incrementOf (paramsOf st) = Fin 1" using h(8) by (simp add: incrementOf_def)
    show ?thesis
      using handleProcessText_accepted[OF h(1-5) _ _ h(6,7)] by (simp add: i isNaN_def)
  qed
  have invalid: "handleProcessText st = Some (st, [Alert ''Increment must be a positive number.''])"
    if h: "inputTextOf st \<noteq> []" "rangeOf (paramsOf st) = [start, endv]"
      "\<not> isNaN start" "\<not> isNaN endv" "\<not> js_gt start endv"
      "truthy (paramsOf st ''increment'')" "parseInt (the (paramsOf st ''increment'')) = NaN"
  proof -
    have i: "incrementOf (paramsOf st) = NaN" using h(6,7) by (simp add: incrementOf_def)
    show ?thesis using h(1-5) by (simp add: handleProcessText_def Let_def i isNaN_def)
  qed
  show ?thesis using formv omitted invalid by blast
qed

text \<open>
  The increment \<open>abc\<close> in the form, the text \<open>range: 1-3\<close> with no increment, and the
  same text with the increment \<open>abc\<close>.
\<close>

theorem increment_default_witness:
  "generateBarcodeData (exampleForm\<lparr> increment := ''abc'' \<rparr>) =
     generateBarcodeData (exampleForm\<lparr> increment := ''abc'', increment := ''1'' \<rparr>)
   \<and> handleProcessText (exampleForm\<lparr> processTextInput := ''range: 1-3'' \<rparr>) =
       map_option (\<lambda>generatedCodes.
                     (appendToManualData (exampleForm\<lparr> processTextInput := ''range: 1-3'' \<rparr>)
                        generatedCodes, []))
         (handleProcessText_loop [] [] (Fin 0) (Fin 1) (Fin 3) (Fin 1) [])
   \<and> handleProcessText
        (exampleForm\<lparr> processTextInput := ''range: 1-3'' @ [newline] @ ''increment: abc'' \<rparr>) =
       Some (exampleForm\<lparr> processTextInput := ''range: 1-3'' @ [newline] @ ''increment: abc'' \<rparr>,
             [Alert ''Increment must be a positive number.''])"
proof -
  let ?f = "exampleForm\<lparr> increment := ''abc'' \<rparr>"
  let ?o = "exampleForm\<lparr> processTextInput := ''range: 1-3'' \<rparr>"
  let ?i = "exampleForm\<lparr> processTextInput := ''range: 1-3'' @ [newline] @ ''increment: abc'' \<rparr>"
  have f: "parseInt (increment ?f) = NaN"
    by code_simp
  have o: "inputTextOf ?o \<noteq> []" "rangeOf (paramsOf ?o) = [Fin 1, Fin 3]"
    "\<not> isNaN (Fin 1)" "\<not> isNaN (Fin 3)" "\<not> js_gt (Fin 1) (Fin 3)"
    "\<not> isNaN (paddingOf (paramsOf ?o))" "\<not> js_lt (paddingOf (paramsOf ?o)) (Fin 0)"
    "\<not> truthy (paramsOf ?o ''increment'')"
    by code_simp+
  have o': "orEmpty (paramsOf ?o ''prefix'') = []" "orEmpty (paramsOf ?o ''suffix'') = []"
    "paddingOf (paramsOf ?o) = Fin 0"
    by code_simp+
  have i: "inputTextOf ?i \<noteq> []" "rangeOf (paramsOf ?i) = [Fin 1, Fin 3]"
    "\<not> isNaN (Fin 1)" "\<not> isNaN (Fin 3)" "\<not> js_gt (Fin 1) (Fin 3)"
    "truthy (paramsOf ?i ''increment'')" "parseInt (the (paramsOf ?i ''increment'')) = NaN"
    by code_simp+
  from increment_default[of ?f] f
  have 1: "generateBarcodeData ?f = generateBarcodeData (?f\<lparr> increment := ''1'' \<rparr>)"
    by blast
  from increment_default[of ?o "Fin 1" "Fin 3"] o
  have "handleProcessText ?o =
          map_option (\<lambda>generatedCodes. (appendToManualData ?o generatedCodes, []))
            (handleProcessText_loop (orEmpty (paramsOf ?o ''prefix''))
               (orEmpty (paramsOf ?o ''suffix'')) (paddingOf (paramsOf ?o))
               (Fin 1) (Fin 3) (Fin 1) [])"
    by blast
  then have 2: "handleProcessText ?o =
          map_option (\<lambda>generatedCodes. (appendToManualData ?o generatedCodes, []))
            (handleProcessText_loop [] [] (Fin 0) (Fin 1) (Fin 3) (Fin 1) [])"
    by (simp only: o')
  from increment_default[of ?i "Fin 1" "Fin 3"] i
  have 3: "handleProcessText ?i = Some (?i, [Alert ''Increment must be a positive number.''])"
    by blast
  from 1 2 3 show ?thesis by blast
qed

text \<open>
  C6 as the specification states it fails on the parameter text: the increment \<open>abc\<close>
  is invalid, and the request is rejected, while the same request with the increment 1
  gives the codes 1, 2, 3.
\<close>

theorem invalid_increment_is_rejected:
  "parseInt ''abc'' = NaN
   \<and> handleProcessText
        (exampleForm\<lparr> processTextInput := ''range: 1-3'' @ [newline] @ ''increment: abc'' \<rparr>) =
       Some (exampleForm\<lparr> processTextInput := ''range: 1-3'' @ [newline] @ ''increment: abc'' \<rparr>,
             [Alert ''Increment must be a positive number.''])
   \<and> handleProcessText
        (exampleForm\<lparr> processTextInput := ''range: 1-3'' @ [newline] @ ''increment: 1'' \<rparr>) =
       Some (exampleForm\<lparr> manualData := ''1'' @ [newline] @ ''2'' @ [newline] @ ''3'',
                           processTextInput := [] \<rparr>, [])"
  by code_simp

section \<open>The checks of the parameter text\<close>

text \<open>
  C4 as the specification states it fails at its second step: the range \<open>1.5-3\<close> is not
  two integers, yet it is accepted and gives the codes 1.5 and 2.5.
\<close>

theorem fractional_range_is_accepted:
  "\<not> twoHyphenSeparatedIntegers ''1.5-3''
   \<and> handleProcessText (exampleForm\<lparr> processTextInput := ''range: 1.5-3'' \<rparr>) =
       Some (exampleForm\<lparr> manualData := ''1.5'' @ [newline] @ ''2.5'',
                           processTextInput := [] \<rparr>, [])"
  by code_simp

text \<open>
  C4, as the code has it. The handler checks in this order and leaves at the first check
  that fails, with one alert and the form unchanged: (1) the trimmed text is empty; (2)
  the range is missing or empty, or cutting it at every hyphen does not give exactly two
  pieces that \<open>Number\<close> both reads as numbers (whole or not); (3) the start is greater
  than the end; (4) \<open>parseInt\<close> finds no number in a non-empty increment, or one below
  1; (5) \<open>parseInt\<close> finds no number in a non-empty padding, or one below 0. When every
  check passes the loop runs and its codes join the manual entry.
\<close>

theorem text_validation_order:
  "(inputTextOf st = []
      \<longrightarrow> handleProcessText st = Some (st, [Alert ''Please enter processing parameters.'']))
   \<and> (\<not> truthy (paramsOf st ''range'') \<longrightarrow> rangeOf (paramsOf st) = [])
   \<and> (truthy (paramsOf st ''range'')
      \<longrightarrow> rangeOf (paramsOf st) = map Number (split (CHR ''-'') (the (paramsOf st ''range''))))
   \<and> (inputTextOf st \<noteq> [] \<and>
      \<not> (\<exists>a b. rangeOf (paramsOf st) = [a, b] \<and> \<not> isNaN a \<and> \<not> isNaN b)
      \<longrightarrow> handleProcessText st =
            Some (st, [Alert ''Invalid range. Please use the format: range: 1-100'']))
   \<and> (inputTextOf st \<noteq> [] \<and> rangeOf (paramsOf st) = [start, endv] \<and>
      \<not> isNaN start \<and> \<not> isNaN endv \<and> js_gt start endv
      \<longrightarrow> handleProcessText st =
            Some (st, [Alert ''Start of range cannot be greater than end.'']))
   \<and> (inputTextOf st \<noteq> [] \<and> rangeOf (paramsOf st) = [start, endv] \<and>
      \<not> isNaN start \<and> \<not> isNaN endv \<and> \<not> js_gt start endv \<and>
      (isNaN (incrementOf (paramsOf st)) \<or> js_lt (incrementOf (paramsOf st)) (Fin 1))
      \<longrightarrow> handleProcessText st = Some (st, [Alert ''Increment must be a positive number.'']))
   \<and> (inputTextOf st \<noteq> [] \<and> rangeOf (paramsOf st) = [start, endv] \<and>
      \<not> isNaN start \<and> \<not> isNaN endv \<and> \<not> js_gt start endv \<and>
      \<not> isNaN (incrementOf (paramsOf st)) \<and> \<not> js_lt (incrementOf (paramsOf st)) (Fin 1) \<and>
      (isNaN (paddingOf (paramsOf st)) \<or> js_lt (paddingOf (paramsOf st)) (Fin 0))
      \<longrightarrow> handleProcessText st = Some (st, [Alert ''Padding must be a non-negative number.'']))
   \<and> (inputTextOf st \<noteq> [] \<and> rangeOf (paramsOf st) = [start, endv] \<and>
      \<not> isNaN start \<and> \<not> isNaN endv \<and> \<not> js_gt start endv \<and>
      \<not> isNaN (incrementOf (paramsOf st)) \<and> \<not> js_lt (incrementOf (paramsOf st)) (Fin 1) \<and>
      \<not> isNaN (paddingOf (paramsOf st)) \<and> \<not> js_lt (paddingOf (paramsOf st)) (Fin 0)
      \<longrightarrow> handleProcessText st =
            map_option (\<lambda>generatedCodes. (appendToManualData st generatedCodes, []))
              (handleProcessText_loop (orEmpty (paramsOf st ''prefix''))
                 (orEmpty (paramsOf st ''suffix'')) (paddingOf (paramsOf st))
                 start endv (incrementOf (paramsOf st)) []))"
proof -
  have s1: "handleProcessText st = Some (st, [Alert ''Please enter processing parameters.''])"
    if "inputTextOf st = []"
    using that by (simp add: handleProcessText_def)
  have s2: "handleProcessText st =
              Some (st, [Alert ''Invalid range. Please use the format: range: 1-100''])"
    if "inputTextOf st \<noteq> []"
      "\<not> (\<exists>a b. rangeOf (paramsOf st) = [a, b] \<and> \<not> isNaN a \<and> \<not> isNaN b)"
  proof (cases "\<exists>a b. rangeOf (paramsOf st) = [a, b]")
    case True
    then obtain a b where ab: "rangeOf (paramsOf st) = [a, b]" by blast
    with that(2) have "isNaN a \<or> isNaN b" by blast
    with that(1) ab show ?thesis by (simp add: handleProcessText_def Let_def)
  next
    case False
    with that(1) show ?thesis
      by (simp add: handleProcessText_def Let_def split: list.splits)
  qed
  have s3: "handleProcessText st = Some (st, [Alert ''Start of range cannot be greater than end.''])"
    if "inputTextOf st \<noteq> []" "rangeOf (paramsOf st) = [start, endv]"
      "\<not> isNaN start" "\<not> isNaN endv" "js_gt start endv"
    using that by (simp add: handleProcessText_def Let_def)
  have s4: "handleProcessText st = Some (st, [Alert ''Increment must be a positive number.''])"
    if "inputTextOf st \<noteq> []" "rangeOf (paramsOf st) = [start, endv]"
      "\<not> isNaN start" "\<not> isNaN endv" "\<not> js_gt start endv"
      "isNaN (incrementOf (paramsOf st)) \<or> js_lt (incrementOf (paramsOf st)) (Fin 1)"
    using that by (simp add: handleProcessText_def Let_def)
  have s5: "handleProcessText st = Some (st, [Alert ''Padding must be a non-negative number.''])"
    if "inputTextOf st \<noteq> []" "rangeOf (paramsOf st) = [start, endv]"
      "\<not> isNaN start" "\<not> isNaN endv" "\<not> js_gt start endv"
      "\<not> isNaN (incrementOf (paramsOf st))" "\<not> js_lt (incrementOf (paramsOf st)) (Fin 1)"
      "isNaN (paddingOf (paramsOf st)) \<or> js_lt (paddingOf (paramsOf st)) (Fin 0)"
    using that by (simp add: handleProcessText_def Let_def)
  have r: "\<not> truthy (paramsOf st ''range'') \<longrightarrow> rangeOf (paramsOf st) = []"
    "truthy (paramsOf st ''range'')
      \<longrightarrow> rangeOf (paramsOf st) = map Number (split (CHR ''-'') (the (paramsOf st ''range'')))"
    by (simp_all add: rangeOf_def)
  show ?thesis
    using s1 s2 s3 s4 s5 r handleProcessText_accepted[of st start endv] by blast
qed

text \<open>One parameter text for each check, and one that passes them all.\<close>

theorem text_validation_order_witness:
  "handleProcessText (exampleForm\<lparr> processTextInput := ''  '' \<rparr>) =
     Some (exampleForm\<lparr> processTextInput := ''  '' \<rparr>,
           [Alert ''Please enter processing parameters.''])
   \<and> rangeOf (paramsOf (exampleForm\<lparr> processTextInput := ''prefix: A'' \<rparr>)) = []
   \<and> rangeOf (paramsOf (exampleForm\<lparr> processTextInput := ''range: 5-1'' \<rparr>)) = [Fin 5, Fin 1]
   \<and> handleProcessText (exampleForm\<lparr> processTextInput := ''prefix: A'' \<rparr>) =
       Some (exampleForm\<lparr> processTextInput := ''prefix: A'' \<rparr>,
             [Alert ''Invalid range. Please use the format: range: 1-100''])
   \<and> handleProcessText (exampleForm\<lparr> processTextInput := ''range: 5-1'' \<rparr>) =
       Some (exampleForm\<lparr> processTextInput := ''range: 5-1'' \<rparr>,
             [Alert ''Start of range cannot be greater than end.''])
   \<and> handleProcessText
        (exampleForm\<lparr> processTextInput := ''range: 1-5'' @ [newline] @ ''increment: 0'' \<rparr>) =
       Some (exampleForm\<lparr> processTextInput := ''range: 1-5'' @ [newline] @ ''increment: 0'' \<rparr>,
             [Alert ''Increment must be a positive number.''])
   \<and> handleProcessText
        (exampleForm\<lparr> processTextInput := ''range: 1-5'' @ [newline] @ ''padding: -1'' \<rparr>) =
       Some (exampleForm\<lparr> processTextInput := ''range: 1-5'' @ [newline] @ ''padding: -1'' \<rparr>,
             [Alert ''Padding must be a non-negative number.''])
   \<and> handleProcessText (exampleForm\<lparr> processTextInput := ''range: 1-2'' \<rparr>) =
       Some (exampleForm\<lparr> manualData := ''1'' @ [newline] @ ''2'', processTextInput := [] \<rparr>, [])"
proof -
  let ?e1 = "exampleForm\<lparr> processTextInput := ''  '' \<rparr>"
  let ?e2 = "exampleForm\<lparr> processTextInput := ''prefix: A'' \<rparr>"
  let ?e3 = "exampleForm\<lparr> processTextInput := ''range: 5-1'' \<rparr>"
  let ?e4 = "exampleForm\<lparr> processTextInput := ''range: 1-5'' @ [newline] @ ''increment: 0'' \<rparr>"
  let ?e5 = "exampleForm\<lparr> processTextInput := ''range: 1-5'' @ [newline] @ ''padding: -1'' \<rparr>"
  let ?e6 = "exampleForm\<lparr> processTextInput := ''range: 1-2'' \<rparr>"
  have n: "\<not> isNaN (Fin 5)" "\<not> isNaN (Fin 1)" "\<not> isNaN (Fin 2)"
    "js_gt (Fin 5) (Fin 1)" "\<not> js_gt (Fin 1) (Fin 5)" "\<not> js_gt (Fin 1) (Fin 2)"
    by code_simp+
  have h1: "inputTextOf ?e1 = []"
    by code_simp
  have h2: "inputTextOf ?e2 \<noteq> []" "\<not> truthy (paramsOf ?e2 ''range'')"
    by code_simp+
  have h3: "inputTextOf ?e3 \<noteq> []" "truthy (paramsOf ?e3 ''range'')"
    "map Number (split (CHR ''-'') (the (paramsOf ?e3 ''range''))) = [Fin 5, Fin 1]"
    by code_simp+
  have h4: "inputTextOf ?e4 \<noteq> []" "rangeOf (paramsOf ?e4) = [Fin 1, Fin 5]"
    "js_lt (incrementOf (paramsOf ?e4)) (Fin 1)"
    by code_simp+
  have h5: "inputTextOf ?e5 \<noteq> []" "rangeOf (paramsOf ?e5) = [Fin 1, Fin 5]"
    "\<not> isNaN (incrementOf (paramsOf ?e5))" "\<not> js_lt (incrementOf (paramsOf ?e5)) (Fin 1)"
    "js_lt (paddingOf (paramsOf ?e5)) (Fin 0)"
    by code_simp+
  have h6: "inputTextOf ?e6 \<noteq> []" "rangeOf (paramsOf ?e6) = [Fin 1, Fin 2]"
    "\<not> isNaN (incrementOf (paramsOf ?e6))" "\<not> js_lt (incrementOf (paramsOf ?e6)) (Fin 1)"
    "\<not> isNaN (paddingOf (paramsOf ?e6))" "\<not> js_lt (paddingOf (paramsOf ?e6)) (Fin 0)"
    by code_simp+
  have v6: "map_option (\<lambda>generatedCodes. (appendToManualData ?e6 generatedCodes, [] :: effect list))
              (handleProcessText_loop (orEmpty (paramsOf ?e6 ''prefix''))
                 (orEmpty (paramsOf ?e6 ''suffix'')) (paddingOf (paramsOf ?e6))
                 (Fin 1) (Fin 2) (incrementOf (paramsOf ?e6)) []) =
            Some (exampleForm\<lparr> manualData := ''1'' @ [newline] @ ''2'', processTextInput := [] \<rparr>, [])"
    by code_simp
  from text_validation_order[of ?e1] h1
  have 1: "handleProcessText ?e1 = Some (?e1, [Alert ''Please enter processing parameters.''])"
    by blast
  from text_validation_order[of ?e2] h2
  have 2: "rangeOf (paramsOf ?e2) = []"
    by blast
  from text_validation_order[of ?e3] h3
  have 3: "rangeOf (paramsOf ?e3) = [Fin 5, Fin 1]"
    by simp
  have "\<not> (\<exists>a b. rangeOf (paramsOf ?e2) = [a, b] \<and> \<not> isNaN a \<and> \<not> isNaN b)"
    using 2 by simp
  with text_validation_order[of ?e2] h2
  have 4: "handleProcessText ?e2 =
             Some (?e2, [Alert ''Invalid range. Please use the format: range: 1-100''])"
    by blast
  from text_validation_order[of ?e3 "Fin 5" "Fin 1"] h3 3 n
  have 5: "handleProcessText ?e3 = Some (?e3, [Alert ''Start of range cannot be greater than end.''])"
    by blast
  from text_validation_order[of ?e4 "Fin 1" "Fin 5"] h4 n
  have 6: "handleProcessText ?e4 = Some (?e4, [Alert ''Increment must be a positive number.''])"
    by blast
  from text_validation_order[of ?e5 "Fin 1" "Fin 5"] h5 n
  have 7: "handleProcessText ?e5 = Some (?e5, [Alert ''Padding must be a non-negative number.''])"
    by blast
  from text_validation_order[of ?e6 "Fin 1" "Fin 2"] h6 n
  have "handleProcessText ?e6 =
          map_option (\<lambda>generatedCodes. (appendToManualData ?e6 generatedCodes, []))
              (handleProcessText_loop (orEmpty (paramsOf ?e6 ''prefix''))
                 (orEmpty (paramsOf ?e6 ''suffix'')) (paddingOf (paramsOf ?e6))
                 (Fin 1) (Fin 2) (incrementOf (paramsOf ?e6)) [])"
    by blast
  with v6 have 8: "handleProcessText ?e6 =
      Some (exampleForm\<lparr> manualData := ''1'' @ [newline] @ ''2'', processTextInput := [] \<rparr>, [])"
    by simp
  from 1 2 3 4 5 6 7 8 show ?thesis by blast
qed

section \<open>Pages\<close>





section \<open>The duplicate-pair layout of the standard export\<close>








section \<open>Layout settings that are not finite\<close>

text \<open>
  C8. The specification wants every layout setting checked as a finite number before use.
  The handler checks against \<open>NaN\<close> only: with \<open>Infinity\<close> as the horizontal gap the
  export is not stopped, the document is created and the first column is drawn at the
  \<open>x\<close> position \<open>0 * Infinity = NaN\<close>. A gap that is no number at all is rejected, as
  the specification says.
\<close>

theorem infinite_gap_reaches_the_document:
  "parseFloat ''Infinity'' = PInf
   \<and> handleStandardPdfExport code128
       (exampleForm\<lparr> endVal := ''1'', gapHorizontal := ''Infinity'' \<rparr>) =
       Some ([NewDocument False (Fin 612) (Fin 792),
              DocSvg ''1'' NaN (Fin 665) (Fin 100) (Fin 40),
              DocSvg ''1'' NaN (Fin 465) (Fin 100) (Fin 40),
              DocText ''1'' NaN (Fin 715),
              DocText ''1'' NaN (Fin 515),
              DocSave ''barcodes-standard''], Normal)
   \<and> handleStandardPdfExport code128
       (exampleForm\<lparr> endVal := ''1'', gapHorizontal := ''wide'' \<rparr>) =
       Some ([Alert ''Please ensure all layout settings are valid numbers.''], Normal)"
  by code_simp

section \<open>A code the symbology cannot encode\<close>

text \<open>
  C9. The specification wants a code that cannot be encoded to be reported and skipped on
  every path. The archive export and the preview do so. The two PDF exports call the
  renderer with nothing to catch its exception: the united export stops at the bad code,
  the code after it is never drawn and no document is saved, and so does the standard
  export.
\<close>

theorem invalid_code_aborts_pdf_export:
  "\<not> code128 [CHR 0xE9]
   \<and> handleSvgZipExport code128 True
       (exampleForm\<lparr> manualData := ''A1'' @ [newline, CHR 0xE9, newline] @ ''B2'' \<rparr>) =
       [ZipFile ''a1.svg'' ''A1'', ConsoleWarn [CHR 0xE9], ZipFile ''b2.svg'' ''B2'',
        ZipDownload ''barcodes-svg'']
   \<and> handleUnitedPdfExport code128 (59528 / 100) (84189 / 100)
       (exampleForm\<lparr> manualData := ''A1'' @ [newline, CHR 0xE9, newline] @ ''B2'' \<rparr>) =
       ([NewDocument False (Fin (59528 / 100)) (Fin (84189 / 100)),
         DocSvg ''A1'' (Fin (83282 / 1000)) (Fin (1068945 / 10000)) (Fin (90256 / 1000))
           (Fin (69789 / 1000))],
        Threw [CHR 0xE9])
   \<and> handlePreview code128 (exampleForm\<lparr> prefix := [CHR 0xE9], endVal := ''4'' \<rparr>) =
       Some [ConsoleError [CHR 0xE9, CHR ''1''], PreviewInvalid [CHR 0xE9, CHR ''1''],
             ConsoleError [CHR 0xE9, CHR ''4''], PreviewInvalid [CHR 0xE9, CHR ''4'']]
   \<and> handleStandardPdfExport code128 (exampleForm\<lparr> prefix := [CHR 0xE9], endVal := ''4'' \<rparr>) =
       Some ([NewDocument False (Fin 612) (Fin 792)], Threw [CHR 0xE9, CHR ''1''])"
  by code_simp

section \<open>The dense grid of the united export\<close>







end
